theory Spec2Isabelle
  imports Main
begin

section \<open>Data model of \<open>src/hooks/useV3Trade.ts\<close>\<close>

text \<open>
  The two enumerations of the module, in the order the source declares them.
\<close>

datatype V3TradeState = LOADING | INVALID | NO_ROUTE_FOUND | VALID | SYNCING

datatype RouterVersion = LEGACY | UNISWAP_API

text \<open>
  What a quote source hands back is an object \<open>{state, trade}\<close> whose \<open>trade\<close> is a trade
  or \<open>null\<close>; what the hooks hand back is the same object with a \<open>router\<close> field added.
  The trade itself is opaque (a type parameter): the module only forwards it.
\<close>

record 't quote =
  state :: V3TradeState
  trade :: "'t option"

record 't result = "'t quote" +
  router :: RouterVersion

text \<open>
  The hooks call three collaborators that live in other modules (\<open>useDebounce\<close>,
  \<open>useRouterTradeExactIn/Out\<close>, \<open>useLocalV3TradeExactIn/Out\<close>). Each call is an effect of
  the render; it is recorded with the arguments it was given. An absent (\<open>undefined\<close>)
  argument is \<open>None\<close>.
\<close>

datatype ('a, 'c) call =
    Call_useDebounce "'a option" nat
  | Call_useRouterTradeExactIn "'a option" "'c option"
  | Call_useRouterTradeExactOut "'c option" "'a option"
  | Call_useLocalV3TradeExactIn "'a option" "'c option"
  | Call_useLocalV3TradeExactOut "'c option" "'a option"

text \<open>
  One run of a hook: the collaborator calls it made, in order, and the object it returned.
\<close>

record ('a, 'c, 't) render =
  calls :: "('a, 'c) call list"
  returned :: "'t result"

section \<open>The module\<close>

text \<open>
  \<^verbatim>\<open>const shouldUseFallback = (state) => [V3TradeState.NO_ROUTE_FOUND].includes(state)\<close>
\<close>

definition shouldUseFallback :: "V3TradeState \<Rightarrow> bool" where
  "shouldUseFallback st = List.member [NO_ROUTE_FOUND] st"

text \<open>
  \<open>useV3TradeExactIn(amountIn?, currencyOut?)\<close>. The collaborators are parameters, named as
  the source imports them: \<open>useDebounce v w\<close> answers the pair
  \<open>[debounced, debouncing]\<close>, the two quote sources answer a \<open>quote\<close>. The three calls are
  made on every render, before the test on \<open>debouncing\<close>.
\<close>

definition useV3TradeExactIn ::
  "('a option \<Rightarrow> nat \<Rightarrow> 'a option \<times> bool) \<Rightarrow>
   ('a option \<Rightarrow> 'c option \<Rightarrow> 't quote) \<Rightarrow>
   ('a option \<Rightarrow> 'c option \<Rightarrow> 't quote) \<Rightarrow>
   'a option \<Rightarrow> 'c option \<Rightarrow> ('a, 'c, 't) render" where
  "useV3TradeExactIn useDebounce useRouterTradeExactIn useLocalV3TradeExactIn amountIn currencyOut =
     (let (debouncedAmountIn, debouncing) = useDebounce amountIn 250;
          multiRouteTradeExactIn = useRouterTradeExactIn debouncedAmountIn currencyOut;
          useFallback = (\<not> debouncing \<and> shouldUseFallback (state multiRouteTradeExactIn));
          localAmount = (if useFallback then debouncedAmountIn else None);
          localCurrency = (if useFallback then currencyOut else None);
          bestV3TradeExactIn = useLocalV3TradeExactIn localAmount localCurrency;
          made = [Call_useDebounce amountIn 250,
                  Call_useRouterTradeExactIn debouncedAmountIn currencyOut,
                  Call_useLocalV3TradeExactIn localAmount localCurrency]
      in if debouncing then
           \<lparr>calls = made,
            returned = \<lparr>state = LOADING, trade = None, router = UNISWAP_API\<rparr>\<rparr>
         else if useFallback then
           \<lparr>calls = made,
            returned = \<lparr>state = state bestV3TradeExactIn, trade = trade bestV3TradeExactIn,
                        router = LEGACY\<rparr>\<rparr>
         else
           \<lparr>calls = made,
            returned = \<lparr>state = state multiRouteTradeExactIn,
                        trade = trade multiRouteTradeExactIn, router = UNISWAP_API\<rparr>\<rparr>)"

text \<open>
  \<open>useV3TradeExactOut(currencyIn?, amountOut?)\<close>: the amount is the second argument here,
  and it is the one handed to \<open>useDebounce\<close>.
\<close>

definition useV3TradeExactOut ::
  "('a option \<Rightarrow> nat \<Rightarrow> 'a option \<times> bool) \<Rightarrow>
   ('c option \<Rightarrow> 'a option \<Rightarrow> 't quote) \<Rightarrow>
   ('c option \<Rightarrow> 'a option \<Rightarrow> 't quote) \<Rightarrow>
   'c option \<Rightarrow> 'a option \<Rightarrow> ('a, 'c, 't) render" where
  "useV3TradeExactOut useDebounce useRouterTradeExactOut useLocalV3TradeExactOut currencyIn amountOut =
     (let (debouncedAmountOut, debouncing) = useDebounce amountOut 250;
          multiRouteTradeExactOut = useRouterTradeExactOut currencyIn debouncedAmountOut;
          useFallback = (\<not> debouncing \<and> shouldUseFallback (state multiRouteTradeExactOut));
          localCurrency = (if useFallback then currencyIn else None);
          localAmount = (if useFallback then debouncedAmountOut else None);
          bestV3TradeExactOut = useLocalV3TradeExactOut localCurrency localAmount;
          made = [Call_useDebounce amountOut 250,
                  Call_useRouterTradeExactOut currencyIn debouncedAmountOut,
                  Call_useLocalV3TradeExactOut localCurrency localAmount]
      in if debouncing then
           \<lparr>calls = made,
            returned = \<lparr>state = LOADING, trade = None, router = UNISWAP_API\<rparr>\<rparr>
         else if useFallback then
           \<lparr>calls = made,
            returned = \<lparr>state = state bestV3TradeExactOut, trade = trade bestV3TradeExactOut,
                        router = LEGACY\<rparr>\<rparr>
         else
           \<lparr>calls = made,
            returned = \<lparr>state = state multiRouteTradeExactOut,
                        trade = trade multiRouteTradeExactOut, router = UNISWAP_API\<rparr>\<rparr>)"

section \<open>The module, with collaborators that may throw\<close>

text \<open>
  The module has no \<open>throw\<close> and no \<open>try\<close>: an exception can only come out of a call
  to a collaborator, and it then leaves the hook at that call. Here a collaborator
  answers \<open>Inr\<close> its value or \<open>Inl\<close> what it threw; the calls are made in the order of
  the source (debouncer, remote source, local source), the local source also while
  debouncing, and the first exception ends the render.
\<close>

definition useV3TradeExactIn_exn ::
  "('a option \<Rightarrow> nat \<Rightarrow> 'e + 'a option \<times> bool) \<Rightarrow>
   ('a option \<Rightarrow> 'c option \<Rightarrow> 'e + 't quote) \<Rightarrow>
   ('a option \<Rightarrow> 'c option \<Rightarrow> 'e + 't quote) \<Rightarrow>
   'a option \<Rightarrow> 'c option \<Rightarrow> 'e + ('a, 'c, 't) render" where
  "useV3TradeExactIn_exn useDebounce useRouterTradeExactIn useLocalV3TradeExactIn amountIn currencyOut =
     (case useDebounce amountIn 250 of
        Inl thrown \<Rightarrow> Inl thrown
      | Inr (debouncedAmountIn, debouncing) \<Rightarrow>
     (case useRouterTradeExactIn debouncedAmountIn currencyOut of
        Inl thrown \<Rightarrow> Inl thrown
      | Inr multiRouteTradeExactIn \<Rightarrow>
     (let useFallback = (\<not> debouncing \<and> shouldUseFallback (state multiRouteTradeExactIn));
          localAmount = (if useFallback then debouncedAmountIn else None);
          localCurrency = (if useFallback then currencyOut else None)
      in case useLocalV3TradeExactIn localAmount localCurrency of
        Inl thrown \<Rightarrow> Inl thrown
      | Inr bestV3TradeExactIn \<Rightarrow>
     (let made = [Call_useDebounce amountIn 250,
                  Call_useRouterTradeExactIn debouncedAmountIn currencyOut,
                  Call_useLocalV3TradeExactIn localAmount localCurrency]
      in if debouncing then
           Inr \<lparr>calls = made,
                returned = \<lparr>state = LOADING, trade = None, router = UNISWAP_API\<rparr>\<rparr>
         else if useFallback then
           Inr \<lparr>calls = made,
                returned = \<lparr>state = state bestV3TradeExactIn, trade = trade bestV3TradeExactIn,
                            router = LEGACY\<rparr>\<rparr>
         else
           Inr \<lparr>calls = made,
                returned = \<lparr>state = state multiRouteTradeExactIn,
                            trade = trade multiRouteTradeExactIn, router = UNISWAP_API\<rparr>\<rparr>))))"


section \<open>Collaborator readings for concrete runs\<close>

text \<open>
  Stand-ins for the collaborators, used where a hook is evaluated on a concrete input:
  a debouncer whose window has elapsed (it answers the raw value), one that is still
  waiting (it answers the previous value \<open>prev\<close>), and a quote source that reports a
  given quote whatever it is asked.
\<close>

definition settled :: "'a option \<Rightarrow> nat \<Rightarrow> 'a option \<times> bool" where
  "settled v w = (v, False)"

definition pending :: "'a option \<Rightarrow> 'a option \<Rightarrow> nat \<Rightarrow> 'a option \<times> bool" where
  "pending prev v w = (prev, True)"

definition reports :: "'t quote \<Rightarrow> 'x \<Rightarrow> 'y \<Rightarrow> 't quote" where
  "reports q x y = q"


text \<open>
  A local source that honours the suppression idiom of the hooks: asked with both
  arguments absent it answers the inert quote \<open>{LOADING, null}\<close>, otherwise the quote
  \<open>q\<close>.
\<close>

definition gated :: "'t quote \<Rightarrow> 'x option \<Rightarrow> 'y option \<Rightarrow> 't quote" where
  "gated q x y = (if x = None \<and> y = None then \<lparr>state = LOADING, trade = None\<rparr> else q)"

text \<open>
  Reading a trace of one hook as a trace of the other: a quote-source call of one
  direction becomes the call of the other direction with its two arguments exchanged
  (the amount moves between the first and the second place); the call of the debouncer
  is left as it is.
\<close>

fun moveLeg :: "('a, 'c) call \<Rightarrow> ('a, 'c) call" where
  "moveLeg (Call_useDebounce v w) = Call_useDebounce v w"
| "moveLeg (Call_useRouterTradeExactIn a c) = Call_useRouterTradeExactOut c a"
| "moveLeg (Call_useRouterTradeExactOut c a) = Call_useRouterTradeExactIn a c"
| "moveLeg (Call_useLocalV3TradeExactIn a c) = Call_useLocalV3TradeExactOut c a"
| "moveLeg (Call_useLocalV3TradeExactOut c a) = Call_useLocalV3TradeExactIn a c"

section \<open>Unfolding the hooks on given readings\<close>

lemma shouldUseFallback_iff: "shouldUseFallback st \<longleftrightarrow> st = NO_ROUTE_FOUND"
  by (auto simp add: shouldUseFallback_def)

lemma exactIn_run:
  assumes "useDebounce amountIn 250 = (d, deb)"
  shows "useV3TradeExactIn useDebounce rIn lIn amountIn currencyOut =
    (let m = rIn d currencyOut;
         fb = (\<not> deb \<and> state m = NO_ROUTE_FOUND);
         la = (if fb then d else None);
         lc = (if fb then currencyOut else None);
         made = [Call_useDebounce amountIn 250, Call_useRouterTradeExactIn d currencyOut,
                 Call_useLocalV3TradeExactIn la lc]
     in \<lparr>calls = made,
         returned =
           (if deb then \<lparr>state = LOADING, trade = None, router = UNISWAP_API\<rparr>
            else if fb then \<lparr>state = state (lIn la lc), trade = trade (lIn la lc), router = LEGACY\<rparr>
            else \<lparr>state = state m, trade = trade m, router = UNISWAP_API\<rparr>)\<rparr>)"
  using assms by (simp add: useV3TradeExactIn_def shouldUseFallback_iff Let_def)

lemma exactOut_run:
  assumes "useDebounce amountOut 250 = (d, deb)"
  shows "useV3TradeExactOut useDebounce rOut lOut currencyIn amountOut =
    (let m = rOut currencyIn d;
         fb = (\<not> deb \<and> state m = NO_ROUTE_FOUND);
         lc = (if fb then currencyIn else None);
         la = (if fb then d else None);
         made = [Call_useDebounce amountOut 250, Call_useRouterTradeExactOut currencyIn d,
                 Call_useLocalV3TradeExactOut lc la]
     in \<lparr>calls = made,
         returned =
           (if deb then \<lparr>state = LOADING, trade = None, router = UNISWAP_API\<rparr>
            else if fb then \<lparr>state = state (lOut lc la), trade = trade (lOut lc la), router = LEGACY\<rparr>
            else \<lparr>state = state m, trade = trade m, router = UNISWAP_API\<rparr>)\<rparr>)"
  using assms by (simp add: useV3TradeExactOut_def shouldUseFallback_iff Let_def)



lemma exactIn_exn_local_throws:
  assumes "useDebounce amountIn 250 = Inr (d, True)"
    and "rIn d currencyOut = Inr m"
    and "lIn None None = Inl e"
  shows "useV3TradeExactIn_exn useDebounce rIn lIn amountIn currencyOut = Inl e"
  using assms by (simp add: useV3TradeExactIn_exn_def)

section \<open>Debounce dominance\<close>

text \<open>
  C1. Whenever the debouncer reports \<open>debouncing = true\<close>, both hooks return exactly
  \<open>{state: LOADING, trade: null, router: UNISWAP_API}\<close>, whatever the remote and the local
  source report (a \<open>VALID\<close> remote quote included) and whatever the inputs are.
\<close>

theorem debounce_dominance:
  assumes "useDebounce amountIn 250 = (dIn, True)"
    and "useDebounce' amountOut 250 = (dOut, True)"
  shows "returned (useV3TradeExactIn useDebounce rIn lIn amountIn currencyOut) =
           \<lparr>state = LOADING, trade = None, router = UNISWAP_API\<rparr>
       \<and> returned (useV3TradeExactOut useDebounce' rOut lOut currencyIn amountOut) =
           \<lparr>state = LOADING, trade = None, router = UNISWAP_API\<rparr>"
  using assms by (simp add: exactIn_run exactOut_run Let_def)

theorem debounce_dominance_witness:
  "returned (useV3TradeExactIn (pending (Some (5::nat)))
       (reports \<lparr>state = VALID, trade = Some (42::nat)\<rparr>)
       (reports \<lparr>state = VALID, trade = Some 43\<rparr>) (Some 10) (Some ''ETH'')) =
     \<lparr>state = LOADING, trade = None, router = UNISWAP_API\<rparr>
   \<and> returned (useV3TradeExactOut (pending (Some (5::nat)))
       (reports \<lparr>state = VALID, trade = Some (42::nat)\<rparr>)
       (reports \<lparr>state = NO_ROUTE_FOUND, trade = None\<rparr>) (Some ''USDC'') (Some 10)) =
     \<lparr>state = LOADING, trade = None, router = UNISWAP_API\<rparr>"
  using debounce_dominance [of "pending (Some (5::nat))" "Some 10" "Some 5"
      "pending (Some (5::nat))" "Some 10" "Some 5"]
  by (simp add: pending_def)

section \<open>When the fallback is active\<close>

text \<open>
  C2. The fallback is active (the returned \<open>router\<close> is \<open>LEGACY\<close>) if and only if
  \<open>debouncing\<close> is false and the state of the remote source is \<open>NO_ROUTE_FOUND\<close>; it is
  not active (the router is \<open>UNISWAP_API\<close>) while debouncing, nor when the remote state is
  \<open>INVALID\<close>, \<open>LOADING\<close>, \<open>SYNCING\<close> or \<open>VALID\<close>. Here \<open>dIn, debIn\<close> is what the
  debouncer answers and \<open>mIn\<close> what the remote source answers to the query the hook
  makes (likewise for exact-out).
\<close>

theorem fallback_trigger_exact:
  assumes "useDebounce amountIn 250 = (dIn, debIn)"
    and "rIn dIn currencyOut = mIn"
    and "useDebounce' amountOut 250 = (dOut, debOut)"
    and "rOut currencyIn dOut = mOut"
  shows "(router (returned (useV3TradeExactIn useDebounce rIn lIn amountIn currencyOut)) = LEGACY
            \<longleftrightarrow> \<not> debIn \<and> state mIn = NO_ROUTE_FOUND)
       \<and> (router (returned (useV3TradeExactOut useDebounce' rOut lOut currencyIn amountOut)) = LEGACY
            \<longleftrightarrow> \<not> debOut \<and> state mOut = NO_ROUTE_FOUND)
       \<and> (debIn \<or> state mIn \<in> {INVALID, LOADING, SYNCING, VALID} \<longrightarrow>
            router (returned (useV3TradeExactIn useDebounce rIn lIn amountIn currencyOut)) = UNISWAP_API)
       \<and> (debOut \<or> state mOut \<in> {INVALID, LOADING, SYNCING, VALID} \<longrightarrow>
            router (returned (useV3TradeExactOut useDebounce' rOut lOut currencyIn amountOut)) = UNISWAP_API)"
proof -
  have rin: "router (returned (useV3TradeExactIn useDebounce rIn lIn amountIn currencyOut)) =
      (if \<not> debIn \<and> state mIn = NO_ROUTE_FOUND then LEGACY else UNISWAP_API)"
    using assms(1,2) by (simp add: exactIn_run Let_def)
  have rout: "router (returned (useV3TradeExactOut useDebounce' rOut lOut currencyIn amountOut)) =
      (if \<not> debOut \<and> state mOut = NO_ROUTE_FOUND then LEGACY else UNISWAP_API)"
    using assms(3,4) by (simp add: exactOut_run Let_def)
  show ?thesis
    unfolding rin rout by auto
qed

theorem fallback_trigger_exact_witness:
  "(router (returned (useV3TradeExactIn settled
        (reports \<lparr>state = NO_ROUTE_FOUND, trade = None\<rparr>)
        (reports \<lparr>state = VALID, trade = Some (7::nat)\<rparr>) (Some (10::nat)) (Some ''ETH''))) = LEGACY)
   \<and> (router (returned (useV3TradeExactOut (pending (Some (5::nat)))
        (reports \<lparr>state = NO_ROUTE_FOUND, trade = None\<rparr>)
        (reports \<lparr>state = VALID, trade = Some (7::nat)\<rparr>) (Some ''USDC'') (Some 10))) = UNISWAP_API)"
  using fallback_trigger_exact [of settled "Some (10::nat)" "Some 10" False
      "reports \<lparr>state = NO_ROUTE_FOUND, trade = None\<rparr>" "Some ''ETH''"
      "\<lparr>state = NO_ROUTE_FOUND, trade = None\<rparr>"
      "pending (Some (5::nat))" "Some 10" "Some 5" True
      "reports \<lparr>state = NO_ROUTE_FOUND, trade = None\<rparr>" "Some ''USDC''"
      "\<lparr>state = NO_ROUTE_FOUND, trade = None\<rparr>"
      "reports \<lparr>state = VALID, trade = Some (7::nat)\<rparr>"
      "reports \<lparr>state = VALID, trade = Some (7::nat)\<rparr>"]
  by (simp add: settled_def pending_def reports_def)

section \<open>Coupling of \<open>trade\<close> and \<open>state\<close>\<close>

text \<open>
  The hooks forward the selected source's \<open>state\<close> and \<open>trade\<close> as they are. With the
  input settled and a remote source that reports \<open>{LOADING, trade 7}\<close>, exact-in returns
  \<open>{LOADING, trade 7, UNISWAP_API}\<close>: a non-null trade in a state that is not \<open>VALID\<close>.
\<close>

theorem coupling_counterexample:
  "\<not> (trade (returned (useV3TradeExactIn settled
          (reports \<lparr>state = LOADING, trade = Some (7::nat)\<rparr>)
          (reports \<lparr>state = LOADING, trade = None\<rparr>) (Some (10::nat)) (Some ''ETH''))) \<noteq> None
       \<longleftrightarrow>
       state (returned (useV3TradeExactIn settled
          (reports \<lparr>state = LOADING, trade = Some (7::nat)\<rparr>)
          (reports \<lparr>state = LOADING, trade = None\<rparr>) (Some (10::nat)) (Some ''ETH''))) = VALID)"
  by (simp add: useV3TradeExactIn_def settled_def reports_def shouldUseFallback_def)

text \<open>
  C3 (amended). Provided every quote the remote and the local source report has a
  non-null \<open>trade\<close> if and only if its \<open>state\<close> is \<open>VALID\<close>, every object returned by
  \<open>useV3TradeExactIn\<close> or \<open>useV3TradeExactOut\<close> has a non-null \<open>trade\<close> if and only if
  its \<open>state\<close> is \<open>VALID\<close> (the object returned while debouncing is \<open>LOADING\<close> with a
  null trade).
\<close>

theorem coupling_forwarded:
  assumes "\<forall>a c. trade (rIn a c) \<noteq> None \<longleftrightarrow> state (rIn a c) = VALID"
    and "\<forall>a c. trade (lIn a c) \<noteq> None \<longleftrightarrow> state (lIn a c) = VALID"
    and "\<forall>c a. trade (rOut c a) \<noteq> None \<longleftrightarrow> state (rOut c a) = VALID"
    and "\<forall>c a. trade (lOut c a) \<noteq> None \<longleftrightarrow> state (lOut c a) = VALID"
  shows "(trade (returned (useV3TradeExactIn useDebounce rIn lIn amountIn currencyOut)) \<noteq> None
            \<longleftrightarrow> state (returned (useV3TradeExactIn useDebounce rIn lIn amountIn currencyOut)) = VALID)
       \<and> (trade (returned (useV3TradeExactOut useDebounce' rOut lOut currencyIn amountOut)) \<noteq> None
            \<longleftrightarrow> state (returned (useV3TradeExactOut useDebounce' rOut lOut currencyIn amountOut)) = VALID)"
proof
  obtain d deb where D: "useDebounce amountIn 250 = (d, deb)"
    by (cases "useDebounce amountIn 250")
  show "trade (returned (useV3TradeExactIn useDebounce rIn lIn amountIn currencyOut)) \<noteq> None
      \<longleftrightarrow> state (returned (useV3TradeExactIn useDebounce rIn lIn amountIn currencyOut)) = VALID"
    using D assms(1,2) by (simp add: exactIn_run Let_def)
next
  obtain d deb where D: "useDebounce' amountOut 250 = (d, deb)"
    by (cases "useDebounce' amountOut 250")
  show "trade (returned (useV3TradeExactOut useDebounce' rOut lOut currencyIn amountOut)) \<noteq> None
      \<longleftrightarrow> state (returned (useV3TradeExactOut useDebounce' rOut lOut currencyIn amountOut)) = VALID"
    using D assms(3,4) by (simp add: exactOut_run Let_def)
qed

theorem coupling_forwarded_witness:
  "(trade (returned (useV3TradeExactIn settled
        (reports \<lparr>state = NO_ROUTE_FOUND, trade = None\<rparr>)
        (reports \<lparr>state = VALID, trade = Some (7::nat)\<rparr>) (Some (10::nat)) (Some ''ETH''))) \<noteq> None
      \<longleftrightarrow> state (returned (useV3TradeExactIn settled
        (reports \<lparr>state = NO_ROUTE_FOUND, trade = None\<rparr>)
        (reports \<lparr>state = VALID, trade = Some (7::nat)\<rparr>) (Some (10::nat)) (Some ''ETH''))) = VALID)
   \<and> (trade (returned (useV3TradeExactOut settled
        (reports \<lparr>state = INVALID, trade = None\<rparr>)
        (reports \<lparr>state = LOADING, trade = (None :: nat option)\<rparr>) (Some ''USDC'') (Some (10::nat)))) \<noteq> None
      \<longleftrightarrow> state (returned (useV3TradeExactOut settled
        (reports \<lparr>state = INVALID, trade = None\<rparr>)
        (reports \<lparr>state = LOADING, trade = (None :: nat option)\<rparr>) (Some ''USDC'') (Some (10::nat)))) = VALID)"
  using coupling_forwarded [of
      "reports \<lparr>state = NO_ROUTE_FOUND, trade = None\<rparr>"
      "reports \<lparr>state = VALID, trade = Some (7::nat)\<rparr>"
      "reports \<lparr>state = INVALID, trade = None\<rparr>"
      "reports \<lparr>state = LOADING, trade = (None :: nat option)\<rparr>"
      settled "Some (10::nat)" "Some ''ETH''" settled "Some ''USDC''" "Some (10::nat)"]
  by (simp add: reports_def)

section \<open>Suppression of the local source\<close>

text \<open>
  C4. Whenever the fallback is not active (\<open>debouncing\<close> is true, or the remote state is
  not \<open>NO_ROUTE_FOUND\<close>) the local source is called, once, with both arguments
  \<open>undefined\<close>; when the fallback is active it is called with the debounced amount and
  the currency. The whole trace of the render is given, so these are the only calls.
\<close>

theorem local_suppression:
  assumes "useDebounce amountIn 250 = (dIn, debIn)"
    and "rIn dIn currencyOut = mIn"
    and "useDebounce' amountOut 250 = (dOut, debOut)"
    and "rOut currencyIn dOut = mOut"
  shows "(debIn \<or> state mIn \<noteq> NO_ROUTE_FOUND \<longrightarrow>
            calls (useV3TradeExactIn useDebounce rIn lIn amountIn currencyOut) =
              [Call_useDebounce amountIn 250, Call_useRouterTradeExactIn dIn currencyOut,
               Call_useLocalV3TradeExactIn None None])
       \<and> (\<not> debIn \<and> state mIn = NO_ROUTE_FOUND \<longrightarrow>
            calls (useV3TradeExactIn useDebounce rIn lIn amountIn currencyOut) =
              [Call_useDebounce amountIn 250, Call_useRouterTradeExactIn dIn currencyOut,
               Call_useLocalV3TradeExactIn dIn currencyOut])
       \<and> (debOut \<or> state mOut \<noteq> NO_ROUTE_FOUND \<longrightarrow>
            calls (useV3TradeExactOut useDebounce' rOut lOut currencyIn amountOut) =
              [Call_useDebounce amountOut 250, Call_useRouterTradeExactOut currencyIn dOut,
               Call_useLocalV3TradeExactOut None None])
       \<and> (\<not> debOut \<and> state mOut = NO_ROUTE_FOUND \<longrightarrow>
            calls (useV3TradeExactOut useDebounce' rOut lOut currencyIn amountOut) =
              [Call_useDebounce amountOut 250, Call_useRouterTradeExactOut currencyIn dOut,
               Call_useLocalV3TradeExactOut currencyIn dOut])"
proof -
  have cin: "calls (useV3TradeExactIn useDebounce rIn lIn amountIn currencyOut) =
      [Call_useDebounce amountIn 250, Call_useRouterTradeExactIn dIn currencyOut,
       Call_useLocalV3TradeExactIn
         (if \<not> debIn \<and> state mIn = NO_ROUTE_FOUND then dIn else None)
         (if \<not> debIn \<and> state mIn = NO_ROUTE_FOUND then currencyOut else None)]"
    using assms(1,2) by (simp add: exactIn_run Let_def)
  have cout: "calls (useV3TradeExactOut useDebounce' rOut lOut currencyIn amountOut) =
      [Call_useDebounce amountOut 250, Call_useRouterTradeExactOut currencyIn dOut,
       Call_useLocalV3TradeExactOut
         (if \<not> debOut \<and> state mOut = NO_ROUTE_FOUND then currencyIn else None)
         (if \<not> debOut \<and> state mOut = NO_ROUTE_FOUND then dOut else None)]"
    using assms(3,4) by (simp add: exactOut_run Let_def)
  show ?thesis
    unfolding cin cout by simp
qed

theorem local_suppression_witness:
  "calls (useV3TradeExactIn settled
        (reports \<lparr>state = INVALID, trade = None\<rparr>)
        (reports \<lparr>state = LOADING, trade = (None :: nat option)\<rparr>) (Some (10::nat)) (Some ''ETH'')) =
     [Call_useDebounce (Some 10) 250, Call_useRouterTradeExactIn (Some 10) (Some ''ETH''),
      Call_useLocalV3TradeExactIn None None]
   \<and> calls (useV3TradeExactOut settled
        (reports \<lparr>state = NO_ROUTE_FOUND, trade = None\<rparr>)
        (reports \<lparr>state = VALID, trade = Some (7::nat)\<rparr>) (Some ''USDC'') (Some (10::nat))) =
     [Call_useDebounce (Some 10) 250, Call_useRouterTradeExactOut (Some ''USDC'') (Some 10),
      Call_useLocalV3TradeExactOut (Some ''USDC'') (Some 10)]"
  using local_suppression [of settled "Some (10::nat)" "Some 10" False
      "reports \<lparr>state = INVALID, trade = None\<rparr>" "Some ''ETH''"
      "\<lparr>state = INVALID, trade = None\<rparr>"
      settled "Some (10::nat)" "Some 10" False
      "reports \<lparr>state = NO_ROUTE_FOUND, trade = None\<rparr>" "Some ''USDC''"
      "\<lparr>state = NO_ROUTE_FOUND, trade = None\<rparr>"
      "reports \<lparr>state = LOADING, trade = (None :: nat option)\<rparr>"
      "reports \<lparr>state = VALID, trade = Some (7::nat)\<rparr>"]
  by (simp add: settled_def reports_def)

section \<open>Selection once the input has settled\<close>

text \<open>
  C5. With \<open>debouncing\<close> false: if the remote state is \<open>NO_ROUTE_FOUND\<close> the returned
  object is the local source's \<open>{state, trade}\<close> (for the debounced amount and the
  currency) with \<open>router = LEGACY\<close>; otherwise it is the remote source's
  \<open>{state, trade}\<close> with \<open>router = UNISWAP_API\<close>.
\<close>

theorem settled_selection:
  assumes "useDebounce amountIn 250 = (dIn, False)"
    and "rIn dIn currencyOut = mIn"
    and "useDebounce' amountOut 250 = (dOut, False)"
    and "rOut currencyIn dOut = mOut"
  shows "(state mIn = NO_ROUTE_FOUND \<longrightarrow>
            returned (useV3TradeExactIn useDebounce rIn lIn amountIn currencyOut) =
              \<lparr>state = state (lIn dIn currencyOut), trade = trade (lIn dIn currencyOut),
               router = LEGACY\<rparr>)
       \<and> (state mIn \<noteq> NO_ROUTE_FOUND \<longrightarrow>
            returned (useV3TradeExactIn useDebounce rIn lIn amountIn currencyOut) =
              \<lparr>state = state mIn, trade = trade mIn, router = UNISWAP_API\<rparr>)
       \<and> (state mOut = NO_ROUTE_FOUND \<longrightarrow>
            returned (useV3TradeExactOut useDebounce' rOut lOut currencyIn amountOut) =
              \<lparr>state = state (lOut currencyIn dOut), trade = trade (lOut currencyIn dOut),
               router = LEGACY\<rparr>)
       \<and> (state mOut \<noteq> NO_ROUTE_FOUND \<longrightarrow>
            returned (useV3TradeExactOut useDebounce' rOut lOut currencyIn amountOut) =
              \<lparr>state = state mOut, trade = trade mOut, router = UNISWAP_API\<rparr>)"
proof -
  have rin: "returned (useV3TradeExactIn useDebounce rIn lIn amountIn currencyOut) =
      (if state mIn = NO_ROUTE_FOUND
       then \<lparr>state = state (lIn dIn currencyOut), trade = trade (lIn dIn currencyOut),
             router = LEGACY\<rparr>
       else \<lparr>state = state mIn, trade = trade mIn, router = UNISWAP_API\<rparr>)"
    using assms(2) by (simp add: exactIn_run [of useDebounce amountIn dIn False, OF assms(1)] Let_def)
  have rout: "returned (useV3TradeExactOut useDebounce' rOut lOut currencyIn amountOut) =
      (if state mOut = NO_ROUTE_FOUND
       then \<lparr>state = state (lOut currencyIn dOut), trade = trade (lOut currencyIn dOut),
             router = LEGACY\<rparr>
       else \<lparr>state = state mOut, trade = trade mOut, router = UNISWAP_API\<rparr>)"
    using assms(4) by (simp add: exactOut_run [of useDebounce' amountOut dOut False, OF assms(3)] Let_def)
  show ?thesis
    unfolding rin rout by simp
qed

theorem settled_selection_witness:
  "returned (useV3TradeExactIn settled
        (reports \<lparr>state = NO_ROUTE_FOUND, trade = None\<rparr>)
        (reports \<lparr>state = VALID, trade = Some (7::nat)\<rparr>) (Some (10::nat)) (Some ''ETH'')) =
     \<lparr>state = VALID, trade = Some 7, router = LEGACY\<rparr>
   \<and> returned (useV3TradeExactOut settled
        (reports \<lparr>state = VALID, trade = Some (8::nat)\<rparr>)
        (reports \<lparr>state = LOADING, trade = None\<rparr>) (Some ''USDC'') (Some (10::nat))) =
     \<lparr>state = VALID, trade = Some 8, router = UNISWAP_API\<rparr>"
  using settled_selection [of settled "Some (10::nat)" "Some 10"
      "reports \<lparr>state = NO_ROUTE_FOUND, trade = None\<rparr>" "Some ''ETH''"
      "\<lparr>state = NO_ROUTE_FOUND, trade = None\<rparr>"
      settled "Some (10::nat)" "Some 10"
      "reports \<lparr>state = VALID, trade = Some (8::nat)\<rparr>" "Some ''USDC''"
      "\<lparr>state = VALID, trade = Some (8::nat)\<rparr>"
      "reports \<lparr>state = VALID, trade = Some (7::nat)\<rparr>"
      "reports \<lparr>state = LOADING, trade = None\<rparr>"]
  by (simp add: settled_def reports_def)

section \<open>Absent arguments\<close>




section \<open>Exact-out is exact-in with the amount in the second place\<close>

text \<open>
  C7. The two hooks implement one policy: for the same debouncer and the same sources,
  \<open>useV3TradeExactOut\<close> on \<open>(currencyIn, amountOut)\<close> returns the same object (state,
  trade and router) as \<open>useV3TradeExactIn\<close> on \<open>(amountOut, currencyIn)\<close> run against
  the sources with their two arguments exchanged, and its calls are those of the exact-in
  run with the amount moved from the first to the second argument of each quote-source
  call.
\<close>

theorem exactOut_is_exactIn_swapped:
  "returned (useV3TradeExactOut useDebounce rOut lOut currencyIn amountOut) =
     returned (useV3TradeExactIn useDebounce (\<lambda>a c. rOut c a) (\<lambda>a c. lOut c a)
                 amountOut currencyIn)
   \<and> calls (useV3TradeExactOut useDebounce rOut lOut currencyIn amountOut) =
     map moveLeg (calls (useV3TradeExactIn useDebounce (\<lambda>a c. rOut c a) (\<lambda>a c. lOut c a)
                 amountOut currencyIn))"
proof -
  obtain d deb where D: "useDebounce amountOut 250 = (d, deb)"
    by (cases "useDebounce amountOut 250")
  show ?thesis
    by (simp add: exactOut_run [of useDebounce amountOut d deb, OF D]
        exactIn_run [of useDebounce amountOut d deb, OF D] Let_def)
qed

theorem exactOut_is_exactIn_swapped_witness:
  "returned (useV3TradeExactOut settled
        (reports \<lparr>state = NO_ROUTE_FOUND, trade = None\<rparr>)
        (reports \<lparr>state = VALID, trade = Some (7::nat)\<rparr>) (Some ''USDC'') (Some (10::nat))) =
     \<lparr>state = VALID, trade = Some 7, router = LEGACY\<rparr>
   \<and> calls (useV3TradeExactOut settled
        (reports \<lparr>state = NO_ROUTE_FOUND, trade = None\<rparr>)
        (reports \<lparr>state = VALID, trade = Some (7::nat)\<rparr>) (Some ''USDC'') (Some (10::nat))) =
     [Call_useDebounce (Some 10) 250, Call_useRouterTradeExactOut (Some ''USDC'') (Some 10),
      Call_useLocalV3TradeExactOut (Some ''USDC'') (Some 10)]"
proof -
  have run: "useV3TradeExactIn settled
      (\<lambda>a c. reports \<lparr>state = NO_ROUTE_FOUND, trade = None\<rparr> c a)
      (\<lambda>a c. reports \<lparr>state = VALID, trade = Some (7::nat)\<rparr> c a)
      (Some (10::nat)) (Some ''USDC'') =
    \<lparr>calls = [Call_useDebounce (Some 10) 250, Call_useRouterTradeExactIn (Some 10) (Some ''USDC''),
               Call_useLocalV3TradeExactIn (Some 10) (Some ''USDC'')],
     returned = \<lparr>state = VALID, trade = Some 7, router = LEGACY\<rparr>\<rparr>"
    by (simp add: useV3TradeExactIn_def settled_def reports_def shouldUseFallback_def)
  show ?thesis
    using exactOut_is_exactIn_swapped [of settled
        "reports \<lparr>state = NO_ROUTE_FOUND, trade = None\<rparr>"
        "reports \<lparr>state = VALID, trade = Some (7::nat)\<rparr>" "Some ''USDC''" "Some (10::nat)"]
    by (simp add: run)
qed

section \<open>The result is a function of the three readings\<close>

text \<open>
  C8. The hooks keep no state of their own: a render is determined by what the
  collaborators answer to the calls it makes. If two sets of collaborators give the same
  debouncer reading for the amount, the same remote quote for the query made, and the
  same local quote for every local call of the first run, then the two runs make the same
  calls and return the same object.
\<close>

theorem deterministic_in_readings:
  assumes "d1 amountIn 250 = d2 amountIn 250"
    and "rIn1 (fst (d1 amountIn 250)) currencyOut = rIn2 (fst (d1 amountIn 250)) currencyOut"
    and "\<forall>x y. Call_useLocalV3TradeExactIn x y
            \<in> set (calls (useV3TradeExactIn d1 rIn1 lIn1 amountIn currencyOut))
          \<longrightarrow> lIn1 x y = lIn2 x y"
    and "d1' amountOut 250 = d2' amountOut 250"
    and "rOut1 currencyIn (fst (d1' amountOut 250)) = rOut2 currencyIn (fst (d1' amountOut 250))"
    and "\<forall>x y. Call_useLocalV3TradeExactOut x y
            \<in> set (calls (useV3TradeExactOut d1' rOut1 lOut1 currencyIn amountOut))
          \<longrightarrow> lOut1 x y = lOut2 x y"
  shows "useV3TradeExactIn d1 rIn1 lIn1 amountIn currencyOut =
           useV3TradeExactIn d2 rIn2 lIn2 amountIn currencyOut
       \<and> useV3TradeExactOut d1' rOut1 lOut1 currencyIn amountOut =
           useV3TradeExactOut d2' rOut2 lOut2 currencyIn amountOut"
proof
  obtain d deb where D1: "d1 amountIn 250 = (d, deb)"
    by (cases "d1 amountIn 250")
  then have D2: "d2 amountIn 250 = (d, deb)"
    using assms(1) by simp
  have R: "rIn1 d currencyOut = rIn2 d currencyOut"
    using assms(2) D1 by simp
  have L: "lIn1 (if \<not> deb \<and> state (rIn1 d currencyOut) = NO_ROUTE_FOUND then d else None)
               (if \<not> deb \<and> state (rIn1 d currencyOut) = NO_ROUTE_FOUND then currencyOut else None)
         = lIn2 (if \<not> deb \<and> state (rIn1 d currencyOut) = NO_ROUTE_FOUND then d else None)
               (if \<not> deb \<and> state (rIn1 d currencyOut) = NO_ROUTE_FOUND then currencyOut else None)"
    using assms(3) by (simp add: exactIn_run [of d1 amountIn d deb, OF D1] Let_def)
  show "useV3TradeExactIn d1 rIn1 lIn1 amountIn currencyOut =
      useV3TradeExactIn d2 rIn2 lIn2 amountIn currencyOut"
    using R L by (auto simp add: exactIn_run [of d1 amountIn d deb, OF D1]
        exactIn_run [of d2 amountIn d deb, OF D2] Let_def)
next
  obtain d deb where D1: "d1' amountOut 250 = (d, deb)"
    by (cases "d1' amountOut 250")
  then have D2: "d2' amountOut 250 = (d, deb)"
    using assms(4) by simp
  have R: "rOut1 currencyIn d = rOut2 currencyIn d"
    using assms(5) D1 by simp
  have L: "lOut1 (if \<not> deb \<and> state (rOut1 currencyIn d) = NO_ROUTE_FOUND then currencyIn else None)
                (if \<not> deb \<and> state (rOut1 currencyIn d) = NO_ROUTE_FOUND then d else None)
         = lOut2 (if \<not> deb \<and> state (rOut1 currencyIn d) = NO_ROUTE_FOUND then currencyIn else None)
                (if \<not> deb \<and> state (rOut1 currencyIn d) = NO_ROUTE_FOUND then d else None)"
    using assms(6) by (simp add: exactOut_run [of d1' amountOut d deb, OF D1] Let_def)
  show "useV3TradeExactOut d1' rOut1 lOut1 currencyIn amountOut =
      useV3TradeExactOut d2' rOut2 lOut2 currencyIn amountOut"
    using R L by (auto simp add: exactOut_run [of d1' amountOut d deb, OF D1]
        exactOut_run [of d2' amountOut d deb, OF D2] Let_def)
qed

theorem deterministic_in_readings_witness:
  "useV3TradeExactIn settled (reports \<lparr>state = VALID, trade = Some (8::nat)\<rparr>)
        (gated \<lparr>state = VALID, trade = Some 7\<rparr>) (Some (10::nat)) (Some ''ETH'') =
   useV3TradeExactIn settled (reports \<lparr>state = VALID, trade = Some (8::nat)\<rparr>)
        (gated \<lparr>state = NO_ROUTE_FOUND, trade = None\<rparr>) (Some (10::nat)) (Some ''ETH'')
   \<and> useV3TradeExactOut (pending (Some (5::nat))) (reports \<lparr>state = NO_ROUTE_FOUND, trade = None\<rparr>)
        (gated \<lparr>state = VALID, trade = Some (7::nat)\<rparr>) (Some ''USDC'') (Some (10::nat)) =
     useV3TradeExactOut (pending (Some (5::nat))) (reports \<lparr>state = NO_ROUTE_FOUND, trade = None\<rparr>)
        (gated \<lparr>state = INVALID, trade = None\<rparr>) (Some ''USDC'') (Some (10::nat))"
proof -
  have l1: "\<forall>x y. Call_useLocalV3TradeExactIn x y
        \<in> set (calls (useV3TradeExactIn settled (reports \<lparr>state = VALID, trade = Some (8::nat)\<rparr>)
              (gated \<lparr>state = VALID, trade = Some 7\<rparr>) (Some (10::nat)) (Some ''ETH'')))
      \<longrightarrow> gated \<lparr>state = VALID, trade = Some (7::nat)\<rparr> x y
          = gated \<lparr>state = NO_ROUTE_FOUND, trade = None\<rparr> x y"
    by (simp add: useV3TradeExactIn_def settled_def reports_def gated_def shouldUseFallback_def)
  have l2: "\<forall>x y. Call_useLocalV3TradeExactOut x y
        \<in> set (calls (useV3TradeExactOut (pending (Some (5::nat)))
              (reports \<lparr>state = NO_ROUTE_FOUND, trade = None\<rparr>)
              (gated \<lparr>state = VALID, trade = Some (7::nat)\<rparr>) (Some ''USDC'') (Some (10::nat))))
      \<longrightarrow> gated \<lparr>state = VALID, trade = Some (7::nat)\<rparr> x y
          = gated \<lparr>state = INVALID, trade = None\<rparr> x y"
    by (simp add: useV3TradeExactOut_def pending_def reports_def gated_def shouldUseFallback_def)
  show ?thesis
    by (rule deterministic_in_readings [of settled "Some (10::nat)" settled
        "reports \<lparr>state = VALID, trade = Some (8::nat)\<rparr>" "Some ''ETH''"
        "reports \<lparr>state = VALID, trade = Some (8::nat)\<rparr>"
        "gated \<lparr>state = VALID, trade = Some (7::nat)\<rparr>"
        "gated \<lparr>state = NO_ROUTE_FOUND, trade = None\<rparr>"
        "pending (Some (5::nat))" "Some (10::nat)" "pending (Some (5::nat))"
        "reports \<lparr>state = NO_ROUTE_FOUND, trade = None\<rparr>" "Some ''USDC''"
        "reports \<lparr>state = NO_ROUTE_FOUND, trade = None\<rparr>"
        "gated \<lparr>state = VALID, trade = Some (7::nat)\<rparr>"
        "gated \<lparr>state = INVALID, trade = None\<rparr>",
        OF refl refl l1 refl refl l2])
qed

section \<open>What is debounced\<close>

text \<open>
  C9. Each hook calls the debouncer once, with the window \<open>250\<close>, on the amount
  (\<open>amountIn\<close> for exact-in, \<open>amountOut\<close> for exact-out). The currency is never handed to
  the debouncer: it reaches the remote source as given, and the local source as given or
  as \<open>undefined\<close>.
\<close>

theorem debounce_variable_leg:
  "(\<exists>la lc. calls (useV3TradeExactIn useDebounce rIn lIn amountIn currencyOut) =
        [Call_useDebounce amountIn 250,
         Call_useRouterTradeExactIn (fst (useDebounce amountIn 250)) currencyOut,
         Call_useLocalV3TradeExactIn la lc] \<and> (lc = currencyOut \<or> lc = None))
   \<and> (\<exists>lc la. calls (useV3TradeExactOut useDebounce' rOut lOut currencyIn amountOut) =
        [Call_useDebounce amountOut 250,
         Call_useRouterTradeExactOut currencyIn (fst (useDebounce' amountOut 250)),
         Call_useLocalV3TradeExactOut lc la] \<and> (lc = currencyIn \<or> lc = None))"
proof
  obtain d deb where D: "useDebounce amountIn 250 = (d, deb)"
    by (cases "useDebounce amountIn 250")
  show "\<exists>la lc. calls (useV3TradeExactIn useDebounce rIn lIn amountIn currencyOut) =
        [Call_useDebounce amountIn 250,
         Call_useRouterTradeExactIn (fst (useDebounce amountIn 250)) currencyOut,
         Call_useLocalV3TradeExactIn la lc] \<and> (lc = currencyOut \<or> lc = None)"
    by (simp add: exactIn_run [of useDebounce amountIn d deb, OF D] Let_def D)
next
  obtain d deb where D: "useDebounce' amountOut 250 = (d, deb)"
    by (cases "useDebounce' amountOut 250")
  show "\<exists>lc la. calls (useV3TradeExactOut useDebounce' rOut lOut currencyIn amountOut) =
        [Call_useDebounce amountOut 250,
         Call_useRouterTradeExactOut currencyIn (fst (useDebounce' amountOut 250)),
         Call_useLocalV3TradeExactOut lc la] \<and> (lc = currencyIn \<or> lc = None)"
    by (simp add: exactOut_run [of useDebounce' amountOut d deb, OF D] Let_def D)
qed

theorem debounce_variable_leg_witness:
  "calls (useV3TradeExactIn (pending (Some (5::nat)))
        (reports \<lparr>state = VALID, trade = Some (8::nat)\<rparr>)
        (reports \<lparr>state = LOADING, trade = None\<rparr>) (Some 10) (Some ''ETH'')) ! 0 =
     Call_useDebounce (Some 10) 250
   \<and> calls (useV3TradeExactOut (pending (Some (5::nat)))
        (reports \<lparr>state = VALID, trade = Some (8::nat)\<rparr>)
        (reports \<lparr>state = LOADING, trade = None\<rparr>) (Some ''USDC'') (Some 10)) ! 1 =
     Call_useRouterTradeExactOut (Some ''USDC'') (Some 5)"
  using debounce_variable_leg [of "pending (Some (5::nat))"
      "reports \<lparr>state = VALID, trade = Some (8::nat)\<rparr>"
      "reports \<lparr>state = LOADING, trade = None\<rparr>" "Some 10" "Some ''ETH''"
      "pending (Some (5::nat))"
      "reports \<lparr>state = VALID, trade = Some (8::nat)\<rparr>"
      "reports \<lparr>state = LOADING, trade = None\<rparr>" "Some ''USDC''" "Some 10"]
  by (auto simp add: pending_def)

section \<open>Provenance of the returned fields\<close>

text \<open>
  C10. While debouncing, the returned object is the one the hook makes itself,
  \<open>{LOADING, null, UNISWAP_API}\<close>. Otherwise its \<open>state\<close> and \<open>trade\<close> are, together, the
  quote of one source: the local source's (for the debounced amount and the currency)
  when the remote state is \<open>NO_ROUTE_FOUND\<close>, the remote source's otherwise. The state of
  one source is never paired with the trade of the other, and a forwarded trade is
  unchanged.
\<close>

theorem provenance:
  assumes "useDebounce amountIn 250 = (dIn, debIn)"
    and "rIn dIn currencyOut = mIn"
    and "useDebounce' amountOut 250 = (dOut, debOut)"
    and "rOut currencyIn dOut = mOut"
  shows "(debIn \<longrightarrow> returned (useV3TradeExactIn useDebounce rIn lIn amountIn currencyOut) =
            \<lparr>state = LOADING, trade = None, router = UNISWAP_API\<rparr>)
       \<and> (\<not> debIn \<longrightarrow>
            \<lparr>state = state (returned (useV3TradeExactIn useDebounce rIn lIn amountIn currencyOut)),
             trade = trade (returned (useV3TradeExactIn useDebounce rIn lIn amountIn currencyOut))\<rparr>
            = (if state mIn = NO_ROUTE_FOUND then lIn dIn currencyOut else mIn))
       \<and> (debOut \<longrightarrow> returned (useV3TradeExactOut useDebounce' rOut lOut currencyIn amountOut) =
            \<lparr>state = LOADING, trade = None, router = UNISWAP_API\<rparr>)
       \<and> (\<not> debOut \<longrightarrow>
            \<lparr>state = state (returned (useV3TradeExactOut useDebounce' rOut lOut currencyIn amountOut)),
             trade = trade (returned (useV3TradeExactOut useDebounce' rOut lOut currencyIn amountOut))\<rparr>
            = (if state mOut = NO_ROUTE_FOUND then lOut currencyIn dOut else mOut))"
proof -
  have rin: "returned (useV3TradeExactIn useDebounce rIn lIn amountIn currencyOut) =
      (if debIn then \<lparr>state = LOADING, trade = None, router = UNISWAP_API\<rparr>
       else if state mIn = NO_ROUTE_FOUND
       then \<lparr>state = state (lIn dIn currencyOut), trade = trade (lIn dIn currencyOut),
             router = LEGACY\<rparr>
       else \<lparr>state = state mIn, trade = trade mIn, router = UNISWAP_API\<rparr>)"
    using assms(2) by (simp add: exactIn_run [of useDebounce amountIn dIn debIn, OF assms(1)] Let_def)
  have rout: "returned (useV3TradeExactOut useDebounce' rOut lOut currencyIn amountOut) =
      (if debOut then \<lparr>state = LOADING, trade = None, router = UNISWAP_API\<rparr>
       else if state mOut = NO_ROUTE_FOUND
       then \<lparr>state = state (lOut currencyIn dOut), trade = trade (lOut currencyIn dOut),
             router = LEGACY\<rparr>
       else \<lparr>state = state mOut, trade = trade mOut, router = UNISWAP_API\<rparr>)"
    using assms(4) by (simp add: exactOut_run [of useDebounce' amountOut dOut debOut, OF assms(3)] Let_def)
  show ?thesis
    unfolding rin rout by simp
qed

theorem provenance_witness:
  "\<lparr>state = state (returned (useV3TradeExactIn settled
        (reports \<lparr>state = NO_ROUTE_FOUND, trade = None\<rparr>)
        (reports \<lparr>state = NO_ROUTE_FOUND, trade = (None :: nat option)\<rparr>) (Some (10::nat)) (Some ''ETH''))),
     trade = trade (returned (useV3TradeExactIn settled
        (reports \<lparr>state = NO_ROUTE_FOUND, trade = None\<rparr>)
        (reports \<lparr>state = NO_ROUTE_FOUND, trade = (None :: nat option)\<rparr>) (Some (10::nat)) (Some ''ETH'')))\<rparr>
     = \<lparr>state = NO_ROUTE_FOUND, trade = None\<rparr>
   \<and> returned (useV3TradeExactOut (pending (Some (5::nat)))
        (reports \<lparr>state = VALID, trade = Some (8::nat)\<rparr>)
        (reports \<lparr>state = VALID, trade = Some (7::nat)\<rparr>) (Some ''USDC'') (Some 10)) =
     \<lparr>state = LOADING, trade = None, router = UNISWAP_API\<rparr>"
  using provenance [of settled "Some (10::nat)" "Some 10" False
      "reports \<lparr>state = NO_ROUTE_FOUND, trade = None\<rparr>" "Some ''ETH''"
      "\<lparr>state = NO_ROUTE_FOUND, trade = None\<rparr>"
      "pending (Some (5::nat))" "Some 10" "Some 5" True
      "reports \<lparr>state = VALID, trade = Some (8::nat)\<rparr>" "Some ''USDC''"
      "\<lparr>state = VALID, trade = Some (8::nat)\<rparr>"
      "reports \<lparr>state = NO_ROUTE_FOUND, trade = (None :: nat option)\<rparr>"
      "reports \<lparr>state = VALID, trade = Some (7::nat)\<rparr>"]
  by (simp add: settled_def pending_def reports_def)

end
